theory Spec2Isabelle
  imports Complex_Main "HOL-Library.AList" "HOL-Library.Log_Nat"
begin

section \<open>Python primitives used by the execution pipeline\<close>

text \<open>
  Python floats are modelled as real numbers, with the rounding of a double written
  out where it decides a result (see below); Python's unbounded integers as \<open>int\<close>.
  Exceptions are values: \<open>ValueError\<close> is raised by the broker client's argument checks, \<open>RequestError\<close> stands for any exception of a
  failed broker request, \<open>TypeError\<close> for arithmetic or formatting on \<open>None\<close>, and
  \<open>DatabaseError\<close> for any exception of a failed database commit.
\<close>

datatype py_error = ZeroDivisionError | ValueError | RequestError | TypeError | DatabaseError

text \<open>Python's \<open>int(x)\<close> on a float truncates towards zero.\<close>

definition py_int :: "real \<Rightarrow> int" where
  "py_int x = (if 0 \<le> x then \<lfloor>x\<rfloor> else \<lceil>x\<rceil>)"

subsection \<open>Double-precision arithmetic\<close>

text \<open>
  Where the source truncates a price times 100 to whole cents, or compares a price with
  a target it has computed, the rounding of a double decides the result. Those
  operations are computed as IEEE 754 binary64 does: the exact result, rounded to the
  nearest number with a 53-bit significand, ties to even. Overflow and subnormal
  numbers are not modelled; prices and P&L are far from both. Each operation reads its
  operands as doubles, so a decimal such as \<open>0.44\<close> stands for the double the source
  holds for it. The remaining arithmetic of the model (the Kelly size, the limits, the
  simulator) is carried out on real numbers.
\<close>

text \<open>\<open>ilog2 x\<close> is the exponent of \<open>x > 0\<close>: \<open>2 ^ ilog2 x \<le> x < 2 ^ (ilog2 x + 1)\<close>.\<close>

definition ilog2 :: "real \<Rightarrow> int" where
  "ilog2 x = (if 1 \<le> x then bitlen \<lfloor>x\<rfloor> - 1 else - bitlen (\<lceil>1 / x\<rceil> - 1))"

definition round_half_even :: "real \<Rightarrow> int" where
  "round_half_even r =
     (let f = \<lfloor>r\<rfloor> in
      if r - real_of_int f < 1 / 2 then f
      else if r - real_of_int f > 1 / 2 then f + 1
      else if even f then f else f + 1)"

definition dbl :: "real \<Rightarrow> real" where
  "dbl x =
     (if x = 0 then 0
      else
        let ulp = 2 powi (ilog2 \<bar>x\<bar> - 52)
        in sgn x * real_of_int (round_half_even (\<bar>x\<bar> / ulp)) * ulp)"

definition fadd :: "real \<Rightarrow> real \<Rightarrow> real" where
  "fadd a b = dbl (dbl a + dbl b)"

definition fsub :: "real \<Rightarrow> real \<Rightarrow> real" where
  "fsub a b = dbl (dbl a - dbl b)"

definition fmul :: "real \<Rightarrow> real \<Rightarrow> real" where
  "fmul a b = dbl (dbl a * dbl b)"

text \<open>The callers of \<open>fdiv\<close> test the divisor for 0 first, as the source does.\<close>

definition fdiv :: "real \<Rightarrow> real \<Rightarrow> real" where
  "fdiv a b = dbl (dbl a / dbl b)"

definition fge :: "real \<Rightarrow> real \<Rightarrow> bool" where
  "fge a b = (dbl a \<ge> dbl b)"

definition fle :: "real \<Rightarrow> real \<Rightarrow> bool" where
  "fle a b = (dbl a \<le> dbl b)"

definition flt :: "real \<Rightarrow> real \<Rightarrow> bool" where
  "flt a b = (dbl a < dbl b)"

subsection \<open>Configuration and signals\<close>

text \<open>
  The configuration is a dictionary of numeric settings; \<open>cfg_get c k d\<close> is
  \<open>c.get(k, d)\<close>.
\<close>

type_synonym config = "string \<rightharpoonup> real"

definition cfg_get :: "config \<Rightarrow> string \<Rightarrow> real \<Rightarrow> real" where
  "cfg_get c k d = (case c k of None \<Rightarrow> d | Some v \<Rightarrow> v)"

text \<open>
  \<open>TradeSignal\<close> (speed\_arbitrage.py): the fields the execution pipeline reads. The
  timestamp, source tag, signal type, fair value and event data are never read by the
  modelled functions and are left out.
\<close>

record trade_signal =
  signal_id :: string
  ticker :: string
  side :: string
  confidence :: real
  edge_percentage :: real
  current_price :: "real option"
  reasoning :: string

text \<open>
  An \<open>Optional[float]\<close> is false in a condition when it is \<open>None\<close> and when it is
  \<open>0\<close>; the definitions below write both cases out.
\<close>

section \<open>PositionSizer (trade\_executor.py, lines 36--141)\<close>

definition kelly_position_size :: "real \<Rightarrow> real \<Rightarrow> real \<Rightarrow> real \<Rightarrow> real" where
  "kelly_position_size edge conf kelly_fraction bankroll =
     (let win_prob = conf;
          loss_prob = 1 - win_prob
      in if edge \<le> 0 \<or> edge \<ge> 1 then 0
         else
           let b = edge / (1 - edge);
               kelly_pct = (b * win_prob - loss_prob) / b;
               kelly_pct = kelly_pct * kelly_fraction;
               kelly_pct = max 0 (min kelly_pct 0.25)
           in bankroll * kelly_pct)"

text \<open>The heat capacity left: \<open>remaining_capacity\<close> of lines 119--120.\<close>

definition remaining_capacity :: "config \<Rightarrow> real \<Rightarrow> real \<Rightarrow> real" where
  "remaining_capacity cfg current_balance current_exposure =
     (let max_heat = cfg_get cfg ''max_portfolio_heat'' 0.20;
          max_exposure = current_balance * max_heat
      in max_exposure - current_exposure)"

text \<open>\<open>kelly_size\<close> of lines 105--113.\<close>

definition kelly_size :: "trade_signal \<Rightarrow> config \<Rightarrow> real \<Rightarrow> real" where
  "kelly_size signal cfg current_balance =
     (let kelly_fraction = cfg_get cfg ''kelly_fraction'' 0.25
      in kelly_position_size (edge_percentage signal) (confidence signal)
           kelly_fraction current_balance)"

text \<open>
  The value of the local variable \<open>position_size_usd\<close> after line 126, the dollar
  size the contracts are computed from; \<open>None\<close> when the function has returned at
  line 124 (heat limit reached) before computing it.
\<close>

definition position_size_usd :: "trade_signal \<Rightarrow> config \<Rightarrow> real \<Rightarrow> real \<Rightarrow> real option" where
  "position_size_usd signal cfg current_balance current_exposure =
     (let max_position = cfg_get cfg ''max_position_size_usd'' 500;
          size_usd = min (kelly_size signal cfg current_balance) max_position;
          remaining = remaining_capacity cfg current_balance current_exposure
      in if remaining \<le> 0 then None
         else Some (min size_usd remaining))"

text \<open>
  Line 130 (and, identically, line 398): the price in cents, the truncated double
  product \<open>int(p * 100)\<close>, and 50 when there is no price.
\<close>

definition price_cents :: "trade_signal \<Rightarrow> int" where
  "price_cents signal =
     (case current_price signal of
        None \<Rightarrow> 50
      | Some p \<Rightarrow> if p \<noteq> 0 then py_int (fmul p 100) else 50)"

definition calculate_position_size ::
  "trade_signal \<Rightarrow> config \<Rightarrow> real \<Rightarrow> real \<Rightarrow> py_error + int" where
  "calculate_position_size signal cfg current_balance current_exposure =
     (case position_size_usd signal cfg current_balance current_exposure of
        None \<Rightarrow> Inr 0
      | Some size_usd \<Rightarrow>
          if price_cents signal = 0 then Inl ZeroDivisionError
          else
            let num_contracts = py_int (size_usd * 100 / real_of_int (price_cents signal))
            in Inr (max 1 num_contracts))"

section \<open>OrderValidator (trade\_executor.py, lines 144--205)\<close>

text \<open>
  The rejection reasons. The source returns formatted strings; each constructor stands
  for one format string and carries the value the string interpolates.
\<close>

datatype rejection =
    Duplicate_signal
  | Confidence_below real
  | Edge_below real
  | Invalid_price real
  | Invalid_side string
  | Missing_ticker
  | Invalid_quantity int
  | Invalid_order_price int

text \<open>
  \<open>md5\<close> stands for \<open>hashlib.md5(s.encode()).hexdigest()\<close>; it is a parameter of the
  model.
\<close>

text \<open>
  The sanity check of lines 173--175: a price that is present and non-zero and lies
  outside \<open>[0.01, 0.99]\<close> is returned; otherwise the check passes (\<open>None\<close>).
\<close>

definition price_out_of_range :: "real option \<Rightarrow> real option" where
  "price_out_of_range cp =
     (case cp of
        None \<Rightarrow> None
      | Some p \<Rightarrow> if p \<noteq> 0 \<and> (p < 0.01 \<or> p > 0.99) then Some p else None)"

definition validate_signal ::
  "(string \<Rightarrow> string) \<Rightarrow> trade_signal \<Rightarrow> config \<Rightarrow> string set \<Rightarrow> bool \<times> rejection option" where
  "validate_signal md5 signal cfg seen_signals =
     (let signal_hash = md5 (signal_id signal) in
      if signal_hash \<in> seen_signals then (False, Some Duplicate_signal)
      else
        let min_confidence = cfg_get cfg ''min_edge_threshold'' 0.05 in
        if confidence signal < min_confidence
        then (False, Some (Confidence_below (confidence signal)))
        else
          let min_edge = cfg_get cfg ''min_edge_threshold'' 0.05 in
          if edge_percentage signal < min_edge
          then (False, Some (Edge_below (edge_percentage signal)))
          else
            (case price_out_of_range (current_price signal) of
               Some p \<Rightarrow> (False, Some (Invalid_price p))
             | None \<Rightarrow>
                 if side signal \<notin> {''yes'', ''no''}
                 then (False, Some (Invalid_side (side signal)))
                 else (True, None)))"

definition validate_order :: "string \<Rightarrow> string \<Rightarrow> int \<Rightarrow> int \<Rightarrow> bool \<times> rejection option" where
  "validate_order tick sd quantity price =
     (if tick = [] then (False, Some Missing_ticker)
      else if sd \<notin> {''yes'', ''no''} then (False, Some (Invalid_side sd))
      else if quantity \<le> 0 then (False, Some (Invalid_quantity quantity))
      else if \<not> (1 \<le> price \<and> price \<le> 99) then (False, Some (Invalid_order_price price))
      else (True, None))"

section \<open>CircuitBreaker (trade\_executor.py, lines 208--257)\<close>

record circuit_breaker =
  max_consecutive_losses :: real
  consecutive_losses :: int
  is_tripped :: bool
  trip_time :: "real option"

definition circuit_breaker_init :: "config \<Rightarrow> circuit_breaker" where
  "circuit_breaker_init cfg =
     \<lparr> max_consecutive_losses = cfg_get cfg ''circuit_breaker_consecutive_losses'' 3,
       consecutive_losses = 0,
       is_tripped = False,
       trip_time = None \<rparr>"

text \<open>\<open>now\<close> is the value \<open>datetime.now()\<close> returns, in seconds.\<close>

definition trip :: "real \<Rightarrow> circuit_breaker \<Rightarrow> circuit_breaker" where
  "trip now cb =
     (if \<not> is_tripped cb then cb\<lparr> is_tripped := True, trip_time := Some now \<rparr> else cb)"

definition reset :: "circuit_breaker \<Rightarrow> circuit_breaker" where
  "reset cb = cb\<lparr> is_tripped := False, trip_time := None, consecutive_losses := 0 \<rparr>"

definition record_trade :: "real \<Rightarrow> circuit_breaker \<Rightarrow> real \<Rightarrow> circuit_breaker" where
  "record_trade now cb pnl =
     (if pnl < 0 then
        let cb1 = cb\<lparr> consecutive_losses := consecutive_losses cb + 1 \<rparr>
        in if real_of_int (consecutive_losses cb1) \<ge> max_consecutive_losses cb1
           then trip now cb1 else cb1
      else
        let cb1 = cb\<lparr> consecutive_losses := 0 \<rparr>
        in if is_tripped cb1 then reset cb1 else cb1)"

definition can_trade :: "circuit_breaker \<Rightarrow> bool \<times> string option" where
  "can_trade cb =
     (if is_tripped cb then (False, Some ''Circuit breaker tripped - trading paused'')
      else (True, None))"

text \<open>
  A run of realized-trade records, each a pair of the clock reading and the P&L, fed to
  \<open>record_trade\<close> one after the other.
\<close>

fun record_trades :: "circuit_breaker \<Rightarrow> (real \<times> real) list \<Rightarrow> circuit_breaker" where
  "record_trades cb [] = cb"
| "record_trades cb ((now, pnl) # rest) = record_trades (record_trade now cb pnl) rest"

section \<open>PaperTrader (paper\_trader.py)\<close>

record paper_order =
  po_order_id :: string
  po_ticker :: string
  po_side :: string
  po_quantity :: int
  po_price :: int
  po_status :: string
  po_created_time :: real
  po_filled_count :: int

text \<open>One entry of the \<open>paper_positions\<close> dictionary; costs are in cents.\<close>

record paper_position =
  pp_ticker :: string
  pp_side :: string
  pp_quantity :: int
  pp_avg_price :: real
  pp_total_cost :: int

text \<open>One entry of the \<open>paper_trades\<close> list.\<close>

record paper_trade =
  pt_timestamp :: real
  pt_order :: paper_order
  pt_fill_price :: "int option"
  pt_fill_quantity :: int

text \<open>
  The simulator's state. The position dictionary is an association list in insertion
  order, keyed by \<open>ticker_side\<close>.
\<close>

record paper_trader =
  paper_trades :: "paper_trade list"
  paper_positions :: "(string \<times> paper_position) list"
  total_pnl :: real
  simulated_fill_rate :: real
  simulated_slippage :: real

definition paper_trader_init :: paper_trader where
  "paper_trader_init =
     \<lparr> paper_trades = [], paper_positions = [], total_pnl = 0,
       simulated_fill_rate = 0.95, simulated_slippage = 0.01 \<rparr>"

text \<open>The quantity the simulator fills (line 111).\<close>

definition fill_quantity :: "paper_trader \<Rightarrow> int \<Rightarrow> int" where
  "fill_quantity pt quantity = py_int (real_of_int quantity * simulated_fill_rate pt)"

text \<open>The price it fills at (lines 115--116).\<close>

definition fill_price :: "int \<Rightarrow> int" where
  "fill_price limit_price = limit_price + (if limit_price < 90 then 1 else 0)"

text \<open>
  \<open>place_order\<close>: \<open>order_id\<close> is the identifier drawn from \<open>uuid4\<close> and \<open>now\<close> the
  clock reading; the result is the order returned and the simulator's new state.
  The average price divides by the position's new quantity.
\<close>

definition paper_place_order ::
  "string \<Rightarrow> real \<Rightarrow> paper_trader \<Rightarrow> string \<Rightarrow> string \<Rightarrow> int \<Rightarrow> int
     \<Rightarrow> py_error + (paper_order \<times> paper_trader)" where
  "paper_place_order order_id now pt tick sd quantity limit_price =
     (let paper_order0 =
            \<lparr> po_order_id = order_id, po_ticker = tick, po_side = sd,
              po_quantity = quantity, po_price = limit_price, po_status = ''resting'',
              po_created_time = now, po_filled_count = 0 \<rparr>;
          fq = fill_quantity pt quantity
      in if fq > 0 then
           let fp = fill_price limit_price;
               paper_order1 = paper_order0
                 \<lparr> po_filled_count := fq,
                   po_status := (if fq = quantity then ''filled'' else ''partial'') \<rparr>;
               position_key = tick @ ''_'' @ sd;
               pos = (case map_of (paper_positions pt) position_key of
                        None \<Rightarrow> \<lparr> pp_ticker = tick, pp_side = sd, pp_quantity = 0,
                                  pp_avg_price = 0, pp_total_cost = 0 \<rparr>
                      | Some q \<Rightarrow> q);
               new_cost = fq * fp;
               pos1 = pos\<lparr> pp_quantity := pp_quantity pos + fq,
                          pp_total_cost := pp_total_cost pos + new_cost \<rparr>
           in if pp_quantity pos1 = 0 then Inl ZeroDivisionError
              else
                let pos2 = pos1\<lparr> pp_avg_price :=
                             real_of_int (pp_total_cost pos1) / real_of_int (pp_quantity pos1) \<rparr>;
                    rec = \<lparr> pt_timestamp = now, pt_order = paper_order1,
                            pt_fill_price = Some fp, pt_fill_quantity = fq \<rparr>
                in Inr (paper_order1,
                        pt\<lparr> paper_positions :=
                              AList.update position_key pos2 (paper_positions pt),
                            paper_trades := paper_trades pt @ [rec] \<rparr>)
         else
           let paper_order1 = paper_order0\<lparr> po_status := ''canceled'' \<rparr>;
               rec = \<lparr> pt_timestamp = now, pt_order = paper_order1,
                       pt_fill_price = None, pt_fill_quantity = fq \<rparr>
           in Inr (paper_order1, pt\<lparr> paper_trades := paper_trades pt @ [rec] \<rparr>))"

text \<open>\<open>get_balance\<close>: the entries \<open>balance\<close> and \<open>total_exposure\<close> of its result.\<close>

definition paper_total_exposure :: "paper_trader \<Rightarrow> real" where
  "paper_total_exposure pt =
     sum_list (map (\<lambda>(k, pos). real_of_int (pp_total_cost pos) / 100) (paper_positions pt))"

definition paper_balance :: "paper_trader \<Rightarrow> real" where
  "paper_balance pt =
     (let starting_capital = 10000;
          total_exposure = paper_total_exposure pt
      in starting_capital - total_exposure + total_pnl pt)"

section \<open>The broker client and the trade record\<close>

text \<open>
  What the exchange answers to an order request is an input of the model: an order with
  its identifier, no order, or a failed request.
\<close>

datatype broker_reply = Order_returned string | No_order | Request_fails

text \<open>
  \<open>KalshiClient.place_order\<close> (kalshi\_client.py, lines 337--388): the argument checks,
  then the request. \<open>Inr None\<close> is the return value \<open>None\<close>.
\<close>

definition kalshi_place_order ::
  "broker_reply \<Rightarrow> string \<Rightarrow> string \<Rightarrow> int \<Rightarrow> int \<Rightarrow> py_error + string option" where
  "kalshi_place_order reply tick sd quantity limit_price =
     (if sd \<notin> {''yes'', ''no''} then Inl ValueError
      else if \<not> (1 \<le> limit_price \<and> limit_price \<le> 99) then Inl ValueError
      else if quantity \<le> 0 then Inl ValueError
      else case reply of
             Order_returned oid \<Rightarrow> Inr (Some oid)
           | No_order \<Rightarrow> Inr None
           | Request_fails \<Rightarrow> Inl RequestError)"

text \<open>
  Modelled from the spec: the \<open>Trade\<close> row of \<open>src.database.models\<close>, a module that is
  not part of the sources. The fields are those the executor and the position manager
  read and write, with the spec's Trade/Position data model for their meaning.
\<close>

record trade =
  t_signal_id :: "int option"
  t_order_id :: string
  t_ticker :: string
  t_side :: string
  t_quantity :: int
  t_entry_price :: real
  t_fill_price :: "real option"
  t_status :: string
  t_exit_price :: "real option"
  t_pnl :: "real option"
  t_fees :: "real option"
  t_close_reason :: "string option"
  t_closed_at :: "real option"

text \<open>An order the broker (or the paper simulator) has accepted.\<close>

record order_request =
  or_ticker :: string
  or_side :: string
  or_quantity :: int
  or_limit_price :: int

text \<open>
  The messages handed to the alert callback. Each constructor stands for one message
  format of the source and carries the values the message interpolates.
\<close>

datatype alert =
    Alert_signal_rejected "string option"
  | Alert_daily_loss real
  | Alert_trade_executed int string string int
  | Alert_execution_failed py_error
  | Alert_position_closed string real string
  | Alert_close_error string py_error

text \<open>\<open>_send_alert\<close>: the message reaches the callback when there is one.\<close>

definition send_alert :: "bool \<Rightarrow> alert \<Rightarrow> alert list" where
  "send_alert has_callback a = (if has_callback then [a] else [])"

section \<open>PositionManager (position\_manager.py)\<close>

text \<open>
  \<open>Market\<close> (kalshi\_client.py): the fields \<open>_check_position\<close> reads. The close time
  is absent, a point in time (seconds), or a value whose parsing or subtraction raises.
\<close>

datatype close_time = No_close_time | Close_at real | Bad_close_time

record market =
  m_status :: string
  m_last_price :: "real option"
  m_yes_bid :: "real option"
  m_close_time :: close_time

record position_manager =
  profit_target_multiplier :: real
  stop_loss_pct :: real
  time_before_close_hours :: real
  pm_has_alert_callback :: bool

definition position_manager_init :: "config \<Rightarrow> bool \<Rightarrow> position_manager" where
  "position_manager_init cfg has_callback =
     \<lparr> profit_target_multiplier = cfg_get cfg ''profit_target_multiplier'' 2.0,
       stop_loss_pct = cfg_get cfg ''stop_loss_percentage'' 0.30,
       time_before_close_hours = cfg_get cfg ''position_timeout_hours'' 24,
       pm_has_alert_callback = has_callback \<rparr>"

text \<open>Python's \<open>a or b\<close> on two optional numbers.\<close>

definition py_or :: "real option \<Rightarrow> real option \<Rightarrow> real option" where
  "py_or a b = (case a of None \<Rightarrow> b | Some v \<Rightarrow> if v \<noteq> 0 then Some v else b)"

text \<open>
  The decision of \<open>_check_position\<close> (lines 77--166): either nothing is done, or
  \<open>_close_position\<close> is called with a price and a reason.
\<close>

datatype exit_action = No_exit | Exit "real option" string

text \<open>The profit target of lines 119--123, a product and a sum of doubles.\<close>

definition profit_target :: "position_manager \<Rightarrow> trade \<Rightarrow> real" where
  "profit_target pm tr =
     (if t_side tr = ''yes''
      then fmul (t_entry_price tr) (fadd 1 (fmul (profit_target_multiplier pm) 0.05))
      else fmul (t_entry_price tr) (fsub 1 (fmul (profit_target_multiplier pm) 0.05)))"

text \<open>
  \<open>now\<close> and the close time are in seconds; their difference is the \<open>timedelta\<close>,
  which \<open>total_seconds()\<close> turns into a double.
\<close>

definition exit_decision ::
  "position_manager \<Rightarrow> real \<Rightarrow> trade \<Rightarrow> market option \<Rightarrow> exit_action" where
  "exit_decision pm now tr mkt =
     (case mkt of
        None \<Rightarrow> No_exit
      | Some m \<Rightarrow>
          if m_status m \<in> {''closed'', ''settled''}
          then Exit (m_last_price m) ''market_closed''
          else
            (case py_or (m_last_price m) (m_yes_bid m) of
              None \<Rightarrow> No_exit
            | Some cp \<Rightarrow>
                if cp = 0 then No_exit
                else
                  let entry_price = t_entry_price tr;
                      pnl_per_contract =
                        (if t_side tr = ''yes'' then fsub cp entry_price
                         else fsub entry_price cp);
                      pnl_pct = (if entry_price > 0 then fdiv pnl_per_contract entry_price
                                 else 0)
                  in if t_side tr = ''yes'' \<and> fge cp (profit_target pm tr)
                     then Exit (Some cp) ''profit_target''
                     else if t_side tr = ''no'' \<and> fle cp (profit_target pm tr)
                     then Exit (Some cp) ''profit_target''
                     else if flt pnl_pct (- stop_loss_pct pm)
                     then Exit (Some cp) ''stop_loss''
                     else
                       (case m_close_time m of
                          Close_at ct \<Rightarrow>
                            if flt (fdiv (ct - now) 3600) (time_before_close_hours pm)
                            then Exit (Some cp) ''time_decay'' else No_exit
                        | _ \<Rightarrow> No_exit)))"

text \<open>
  \<open>_close_position\<close> (lines 168--232). The result is the trade row as the database
  holds it afterwards, the orders the broker accepted and the alerts sent. Every
  exception inside the \<open>try\<close> block ends in the error alert: a price of \<open>None\<close>, an
  order the client refuses, a failed request, a commit that raises (\<open>commit_fails\<close>,
  which leaves the row as it was), and the division by an entry price of 0 in the
  alert text, after the commit.
\<close>

definition close_position ::
  "position_manager \<Rightarrow> real \<Rightarrow> broker_reply \<Rightarrow> bool \<Rightarrow> trade \<Rightarrow> real option \<Rightarrow> string
     \<Rightarrow> trade \<times> order_request list \<times> alert list" where
  "close_position pm now reply commit_fails tr price reason =
     (case price of
        None \<Rightarrow> (tr, [], send_alert (pm_has_alert_callback pm)
                          (Alert_close_error (t_ticker tr) TypeError))
      | Some cp \<Rightarrow>
          let opposite_side = (if t_side tr = ''yes'' then ''no'' else ''yes'');
              cents = py_int (fmul cp 100)
          in (case kalshi_place_order reply (t_ticker tr) opposite_side (t_quantity tr) cents of
               Inl e \<Rightarrow> (tr, [], send_alert (pm_has_alert_callback pm)
                               (Alert_close_error (t_ticker tr) e))
             | Inr None \<Rightarrow> (tr, [], [])
             | Inr (Some oid) \<Rightarrow>
                 let req = \<lparr> or_ticker = t_ticker tr, or_side = opposite_side,
                             or_quantity = t_quantity tr, or_limit_price = cents \<rparr>;
                     entry_price = t_entry_price tr;
                     exit_price = cp;
                     pnl_per_contract =
                       (if t_side tr = ''yes'' then fsub exit_price entry_price
                        else fsub entry_price exit_price);
                     total = fmul pnl_per_contract (real_of_int (t_quantity tr));
                     fees = (if total > 0 then fmul \<bar>total\<bar> 0.03 else 0);
                     net_pnl = fsub total fees;
                     tr1 = tr\<lparr> t_exit_price := Some exit_price, t_pnl := Some net_pnl,
                              t_fees := Some fees, t_status := ''closed'',
                              t_close_reason := Some reason, t_closed_at := Some now \<rparr>
                 in if commit_fails
                    then (tr, [req], send_alert (pm_has_alert_callback pm)
                                       (Alert_close_error (t_ticker tr) DatabaseError))
                    else if entry_price = 0
                    then (tr1, [req], send_alert (pm_has_alert_callback pm)
                                        (Alert_close_error (t_ticker tr) ZeroDivisionError))
                    else (tr1, [req], send_alert (pm_has_alert_callback pm)
                                        (Alert_position_closed (t_ticker tr) net_pnl reason))))"

text \<open>\<open>_check_position\<close>: the decision, carried out.\<close>

definition check_position ::
  "position_manager \<Rightarrow> real \<Rightarrow> broker_reply \<Rightarrow> bool \<Rightarrow> trade \<Rightarrow> market option
     \<Rightarrow> trade \<times> order_request list \<times> alert list" where
  "check_position pm now reply commit_fails tr mkt =
     (case exit_decision pm now tr mkt of
        No_exit \<Rightarrow> (tr, [], [])
      | Exit price reason \<Rightarrow> close_position pm now reply commit_fails tr price reason)"

section \<open>TradeExecutor (trade\_executor.py, lines 260--563)\<close>

record risk_limits =
  rl_max_position_size_usd :: real
  rl_max_portfolio_heat :: real
  rl_max_trades_per_hour :: real
  rl_max_trades_per_day :: real
  rl_max_daily_loss :: real
  rl_stop_loss_percentage :: real
  rl_cooldown_after_loss_seconds :: real
  rl_circuit_breaker_consecutive_losses :: real

text \<open>
  The executor's attributes. The last two fields are a trace, in order, of what the
  executor has done to its collaborators: the messages given to the alert callback
  and the orders the broker or the paper simulator has accepted.
\<close>

record executor =
  ex_config :: config
  ex_risk_limits :: risk_limits
  seen_signals :: "string set"
  recent_trades :: "real list"
  last_loss_time :: "real option"
  daily_pnl :: real
  ex_circuit_breaker :: circuit_breaker
  trading_enabled :: bool
  paper_trading :: bool
  ex_paper_trader :: paper_trader
  has_alert_callback :: bool
  sent_alerts :: "alert list"
  placed_orders :: "order_request list"

text \<open>
  \<open>__init__\<close>: \<open>enabled\<close> is \<open>config.get("enabled", False)\<close>, \<open>paper\<close> the value
  of the environment variable \<open>PAPER_TRADING_MODE\<close>.
\<close>

definition executor_init :: "config \<Rightarrow> bool \<Rightarrow> bool \<Rightarrow> bool \<Rightarrow> executor" where
  "executor_init cfg enabled paper has_callback =
     \<lparr> ex_config = cfg,
       ex_risk_limits =
         \<lparr> rl_max_position_size_usd = cfg_get cfg ''max_position_size_usd'' 500,
           rl_max_portfolio_heat = cfg_get cfg ''max_portfolio_heat'' 0.20,
           rl_max_trades_per_hour = cfg_get cfg ''max_trades_per_hour'' 20,
           rl_max_trades_per_day = cfg_get cfg ''max_trades_per_day'' 100,
           rl_max_daily_loss = cfg_get cfg ''max_daily_loss'' 1000,
           rl_stop_loss_percentage = cfg_get cfg ''stop_loss_percentage'' 0.30,
           rl_cooldown_after_loss_seconds = cfg_get cfg ''cooldown_after_loss_seconds'' 300,
           rl_circuit_breaker_consecutive_losses =
             cfg_get cfg ''circuit_breaker_consecutive_losses'' 3 \<rparr>,
       seen_signals = {},
       recent_trades = [],
       last_loss_time = None,
       daily_pnl = 0,
       ex_circuit_breaker = circuit_breaker_init cfg,
       trading_enabled = enabled,
       paper_trading = paper,
       ex_paper_trader = paper_trader_init,
       has_alert_callback = has_callback,
       sent_alerts = [],
       placed_orders = [] \<rparr>"

text \<open>
  What the collaborators answer during one call of \<open>execute_signal\<close>: the hash function,
  the clock (one reading for the whole call, in seconds), the database's count of
  today's trades and its row id for the signal, the live account's balance and the
  costs (in cents) of its positions, the exchange's reply to the order, the identifier
  of a simulated order, and whether the commit that stores the trade fails.
\<close>

record env =
  md5 :: "string \<Rightarrow> string"
  clock :: real
  daily_trades :: int
  db_signal_id :: "int option"
  live_balance :: real
  live_position_costs :: "real list"
  broker :: broker_reply
  order_uuid :: string
  commit_fails :: bool

text \<open>
  Every \<open>return\<close> of \<open>execute_signal\<close>, named after the line it logs; the Python
  value returned is \<open>None\<close> for all but the last, and \<open>Raised\<close> is an exception that
  leaves the function.
\<close>

datatype outcome =
    Trading_disabled
  | Breaker_rejected "string option"
  | Signal_rejected "rejection option"
  | Rate_limited
  | Daily_loss_limit
  | In_cooldown
  | Zero_size
  | Order_invalid "rejection option"
  | Placement_failed
  | Execution_error py_error
  | Raised py_error
  | Executed trade

fun returned :: "outcome \<Rightarrow> trade option" where
  "returned (Executed t) = Some t"
| "returned _ = None"

text \<open>
  \<open>_check_rate_limits\<close> (lines 466--493): the pruned window is stored whatever the
  answer is.
\<close>

definition check_rate_limits :: "env \<Rightarrow> executor \<Rightarrow> bool \<times> executor" where
  "check_rate_limits e ex =
     (let hour_ago = clock e - 3600;
          ex1 = ex\<lparr> recent_trades := filter (\<lambda>t. t > hour_ago) (recent_trades ex) \<rparr>
      in if real (length (recent_trades ex1)) \<ge> rl_max_trades_per_hour (ex_risk_limits ex1)
         then (False, ex1)
         else if real_of_int (daily_trades e) \<ge> rl_max_trades_per_day (ex_risk_limits ex1)
         then (False, ex1)
         else (True, ex1))"

text \<open>\<open>_calculate_current_exposure\<close> (lines 495--501).\<close>

definition calculate_current_exposure :: "env \<Rightarrow> real" where
  "calculate_current_exposure e = sum_list (map (\<lambda>c. \<bar>c\<bar> / 100) (live_position_costs e))"

text \<open>\<open>_record_trade\<close> (lines 503--528): the row created.\<close>

definition record_trade_row :: "env \<Rightarrow> trade_signal \<Rightarrow> string \<Rightarrow> int \<Rightarrow> int \<Rightarrow> trade" where
  "record_trade_row e signal order_id quantity price =
     \<lparr> t_signal_id = db_signal_id e, t_order_id = order_id, t_ticker = ticker signal,
       t_side = side signal, t_quantity = quantity,
       t_entry_price = real_of_int price / 100, t_fill_price = None, t_status = ''open'',
       t_exit_price = None, t_pnl = None, t_fees = None, t_close_reason = None,
       t_closed_at = None \<rparr>"

text \<open>
  Lines 409--464, the \<open>try\<close> block: the order goes to the simulator or to the broker;
  an order that comes back is recorded, the signal marked as executed, the trade added
  to the rate window and the alert sent. An exception anywhere in the block ends in the
  failure alert.
\<close>

definition place_and_record ::
  "env \<Rightarrow> executor \<Rightarrow> trade_signal \<Rightarrow> int \<Rightarrow> int \<Rightarrow> outcome \<times> executor" where
  "place_and_record e ex signal quantity limit_price =
     (let req = \<lparr> or_ticker = ticker signal, or_side = side signal,
                  or_quantity = quantity, or_limit_price = limit_price \<rparr>;
          failed = (\<lambda>err st. (Execution_error err,
                      st\<lparr> sent_alerts := sent_alerts st @
                            send_alert (has_alert_callback st) (Alert_execution_failed err) \<rparr>));
          placed =
            (if paper_trading ex then
               (case paper_place_order (order_uuid e) (clock e) (ex_paper_trader ex)
                       (ticker signal) (side signal) quantity limit_price of
                  Inl err \<Rightarrow> Inl err
                | Inr (po, pt1) \<Rightarrow>
                    Inr (Some (po_order_id po),
                         ex\<lparr> ex_paper_trader := pt1,
                             placed_orders := placed_orders ex @ [req] \<rparr>))
             else
               (case kalshi_place_order (broker e) (ticker signal) (side signal)
                       quantity limit_price of
                  Inl err \<Rightarrow> Inl err
                | Inr None \<Rightarrow> Inr (None, ex)
                | Inr (Some oid) \<Rightarrow>
                    Inr (Some oid, ex\<lparr> placed_orders := placed_orders ex @ [req] \<rparr>)))
      in case placed of
           Inl err \<Rightarrow> failed err ex
         | Inr (None, ex1) \<Rightarrow> (Placement_failed, ex1)
         | Inr (Some oid, ex1) \<Rightarrow>
             if commit_fails e then failed DatabaseError ex1
             else
               let tr = record_trade_row e signal oid quantity limit_price;
                   signal_hash = md5 e (signal_id signal);
                   ex2 = ex1\<lparr> seen_signals := insert signal_hash (seen_signals ex1) \<rparr>;
                   ex3 = ex2\<lparr> recent_trades := recent_trades ex2 @ [clock e] \<rparr>;
                   ex4 = ex3\<lparr> sent_alerts := sent_alerts ex3 @
                                 send_alert (has_alert_callback ex3)
                                   (Alert_trade_executed quantity (side signal)
                                      (ticker signal) limit_price) \<rparr>
               in (Executed tr, ex4))"

text \<open>
  Lines 378--386: the balance and the exposure, from the simulator in paper mode and
  from the broker otherwise.
\<close>

definition current_balance :: "env \<Rightarrow> executor \<Rightarrow> real" where
  "current_balance e ex =
     (if paper_trading ex then paper_balance (ex_paper_trader ex) else live_balance e)"

definition current_exposure :: "env \<Rightarrow> executor \<Rightarrow> real" where
  "current_exposure e ex =
     (if paper_trading ex then paper_total_exposure (ex_paper_trader ex)
      else calculate_current_exposure e)"

text \<open>
  Lines 388--464: the position is sized, the order parameters are validated and the
  order is placed. The sizer is called outside the \<open>try\<close> block, so its exception
  leaves the function.
\<close>

definition size_and_place :: "env \<Rightarrow> executor \<Rightarrow> trade_signal \<Rightarrow> outcome \<times> executor" where
  "size_and_place e ex signal =
     (case calculate_position_size signal (ex_config ex)
             (current_balance e ex) (current_exposure e ex) of
        Inl err \<Rightarrow> (Raised err, ex)
      | Inr quantity \<Rightarrow>
          if quantity = 0 then (Zero_size, ex)
          else
            let limit_price = price_cents signal
            in (case validate_order (ticker signal) (side signal) quantity limit_price of
                  (False, rejection_reason) \<Rightarrow> (Order_invalid rejection_reason, ex)
                | (True, _) \<Rightarrow> place_and_record e ex signal quantity limit_price))"

text \<open>\<open>execute_signal\<close> (lines 321--464); lines 331--376 are the checks below.\<close>

definition execute_signal :: "env \<Rightarrow> executor \<Rightarrow> trade_signal \<Rightarrow> outcome \<times> executor" where
  "execute_signal e ex signal =
     (if \<not> trading_enabled ex then (Trading_disabled, ex)
      else case can_trade (ex_circuit_breaker ex) of
        (False, reason) \<Rightarrow>
          (Breaker_rejected reason,
           ex\<lparr> sent_alerts := sent_alerts ex @
                 send_alert (has_alert_callback ex) (Alert_signal_rejected reason) \<rparr>)
      | (True, _) \<Rightarrow>
         (case validate_signal (md5 e) signal (ex_config ex) (seen_signals ex) of
            (False, rejection_reason) \<Rightarrow> (Signal_rejected rejection_reason, ex)
          | (True, _) \<Rightarrow>
             (case check_rate_limits e ex of
                (False, ex1) \<Rightarrow> (Rate_limited, ex1)
              | (True, ex1) \<Rightarrow>
                  if daily_pnl ex1 < - rl_max_daily_loss (ex_risk_limits ex1)
                  then (Daily_loss_limit,
                        ex1\<lparr> sent_alerts := sent_alerts ex1 @
                               send_alert (has_alert_callback ex1)
                                 (Alert_daily_loss (daily_pnl ex1)) \<rparr>)
                  else if (case last_loss_time ex1 of
                             None \<Rightarrow> False
                           | Some t \<Rightarrow> clock e - t <
                                rl_cooldown_after_loss_seconds (ex_risk_limits ex1))
                  then (In_cooldown, ex1)
                  else size_and_place e ex1 signal)))"

section \<open>A concrete run\<close>

text \<open>
  The inputs the witnesses and counterexamples below evaluate the executor on: a signal
  without a price, and collaborators that answer without failing (the hash function is
  the identity, the broker returns the order \<open>o1\<close>).
\<close>

definition example_signal :: trade_signal where
  "example_signal =
     \<lparr> signal_id = ''sig-1'', ticker = ''T'', side = ''yes'', confidence = 0.8,
       edge_percentage = 0.06, current_price = None, reasoning = ''r'' \<rparr>"

definition example_env :: env where
  "example_env =
     \<lparr> md5 = (\<lambda>s. s), clock = 100000, daily_trades = 0, db_signal_id = None,
       live_balance = 10000, live_position_costs = [], broker = Order_returned ''o1'',
       order_uuid = ''PAPER_1'', commit_fails = False \<rparr>"

section \<open>Rounding to a double\<close>

lemma powi_neg: "0 \<le> n \<Longrightarrow> (2::real) powi (- n) = inverse (2 ^ nat n)"
  by (simp add: power_int_def power_one_over inverse_eq_divide)

text \<open>The exponent \<open>dbl\<close> scales by is the binary exponent of its argument.\<close>

lemma ilog2_bounds:
  assumes "0 < x"
  shows "2 powi (ilog2 x) \<le> x \<and> x < 2 powi (ilog2 x + 1)"
proof (cases "1 \<le> x")
  case True
  then have p: "0 < \<lfloor>x\<rfloor>" by linarith
  let ?b = "bitlen \<lfloor>x\<rfloor>"
  from bitlen_bounds [OF p]
  have lo: "2 ^ nat (?b - 1) \<le> \<lfloor>x\<rfloor>" and hi: "\<lfloor>x\<rfloor> < 2 ^ nat ?b" by simp_all
  have b1: "1 \<le> ?b" using p by (simp add: bitlen_alt_def)
  have "real_of_int (2 ^ nat (?b - 1)) \<le> x" using lo by linarith
  then have A: "2 powi (?b - 1) \<le> x"
    using b1 by (simp add: power_int_def)
  have "\<lfloor>x\<rfloor> + 1 \<le> 2 ^ nat ?b" using hi by simp
  then have "real_of_int (\<lfloor>x\<rfloor> + 1) \<le> real_of_int (2 ^ nat ?b)" by (rule of_int_le_iff [THEN iffD2])
  then have "x < 2 ^ nat ?b" by (simp add: floor_less_iff) linarith
  then have B: "x < 2 powi ?b" using b1 by (simp add: power_int_def)
  show ?thesis using True A B by (simp add: ilog2_def)
next
  case False
  with assms have x: "0 < x" "x < 1" by simp_all
  let ?m = "\<lceil>1 / x\<rceil> - 1"
  let ?b = "bitlen ?m"
  have gt: "1 < 1 / x" using x by simp
  then have m: "0 < ?m" by linarith
  from bitlen_bounds [OF m]
  have lo: "2 ^ nat (?b - 1) \<le> ?m" and hi: "?m < 2 ^ nat ?b" by simp_all
  have b1: "1 \<le> ?b" using m by (simp add: bitlen_alt_def)
  have "\<lceil>1 / x\<rceil> \<le> 2 ^ nat ?b" using hi by linarith
  then have "real_of_int \<lceil>1 / x\<rceil> \<le> real_of_int (2 ^ nat ?b)"
    by (simp only: of_int_le_iff)
  then have "real_of_int \<lceil>1 / x\<rceil> \<le> 2 ^ nat ?b" by simp
  with le_of_int_ceiling [of "1 / x"] have "1 / x \<le> 2 ^ nat ?b" by (rule order_trans)
  then have "1 \<le> 2 ^ nat ?b * x" using x by (simp add: field_simps)
  then have "inverse (2 ^ nat ?b) \<le> x" by (simp add: field_simps)
  moreover have "2 powi (- ?b) = inverse ((2::real) ^ nat ?b)"
    using b1 by (intro powi_neg) simp
  ultimately have A: "2 powi (- ?b) \<le> x" by (simp only:)
  have m_lt: "real_of_int ?m < 1 / x" by linarith
  have "real_of_int (2 ^ nat (?b - 1)) \<le> real_of_int ?m"
    using lo by (simp only: of_int_le_iff)
  then have "2 ^ nat (?b - 1) \<le> real_of_int ?m" by simp
  from this m_lt have "2 ^ nat (?b - 1) < 1 / x" by (rule le_less_trans)
  then have "2 ^ nat (?b - 1) * x < 1" using x by (simp add: field_simps)
  then have "x < inverse (2 ^ nat (?b - 1))" by (simp add: field_simps)
  moreover have "2 powi (- ?b + 1) = inverse ((2::real) ^ nat (?b - 1))"
  proof -
    have "- ?b + 1 = - (?b - 1)" by simp
    moreover have "(2::real) powi (- (?b - 1)) = inverse (2 ^ nat (?b - 1))"
      using b1 by (intro powi_neg) simp
    ultimately show ?thesis by (simp only:)
  qed
  ultimately have B: "x < 2 powi (- ?b + 1)" by (simp only:)
  show ?thesis using False A B by (simp add: ilog2_def)
qed

text \<open>
  Three evaluations: a price of 0.5 is 50 cents; the double product of 0.29 and 100
  lies below 29 and truncates to 28; and 0.44 is less than the double product
  \<open>0.40 * (1 + 2.0 * 0.05)\<close>.
\<close>

lemma fmul_half_100: "fmul (1 / 2) 100 = 50"
  by code_simp

lemma py_int_fmul_29: "py_int (fmul 0.29 100) = 28"
  by code_simp

lemma dbl_044_below_target: "dbl 0.44 < fmul 0.40 (fadd 1 (fmul 2.0 0.05))"
  by code_simp

section \<open>Position sizing: contracts and dollar size\<close>

lemma kelly_position_size_degenerate:
  "edge \<le> 0 \<or> edge \<ge> 1 \<Longrightarrow> kelly_position_size edge conf kf bankroll = 0"
  by (auto simp: kelly_position_size_def Let_def)

text \<open>
  Under the floor of one contract, truncation towards zero and rounding down agree.
\<close>

lemma max_one_py_int: "max 1 (py_int x) = max 1 \<lfloor>x\<rfloor>"
  unfolding py_int_def by (auto simp: max_def)

text \<open>
  Claim C1, as stated, fails: a signal with edge 0, priced at 50 cents, on a balance of
  10000 dollars with no exposure has a dollar size of 0 and is still sized at one
  contract, because line 134 raises every contract count to at least 1.
\<close>

theorem C1_counterexample:
  "edge_percentage \<lparr> signal_id = ''s'', ticker = ''T'', side = ''yes'', confidence = 0.8,
       edge_percentage = 0, current_price = Some 0.5, reasoning = [] \<rparr> \<le> 0
   \<and> position_size_usd \<lparr> signal_id = ''s'', ticker = ''T'', side = ''yes'', confidence = 0.8,
       edge_percentage = 0, current_price = Some 0.5, reasoning = [] \<rparr> Map.empty 10000 0 = Some 0
   \<and> calculate_position_size \<lparr> signal_id = ''s'', ticker = ''T'', side = ''yes'', confidence = 0.8,
       edge_percentage = 0, current_price = Some 0.5, reasoning = [] \<rparr> Map.empty 10000 0 = Inr 1"
  by (simp add: calculate_position_size_def position_size_usd_def kelly_size_def
      kelly_position_size_def remaining_capacity_def cfg_get_def price_cents_def py_int_def
      fmul_half_100)

text \<open>
  Claim C1, amended: for an edge that is at most 0 or at least 1 the Kelly dollar size
  is 0. The sizer returns 0 contracts when no heat capacity remains; whenever heat
  capacity remains (and the price in cents is not 0) it returns at least one contract,
  and exactly one when the dollar size is 0.
\<close>

theorem C1_contracts:
  "(edge_percentage s \<le> 0 \<or> edge_percentage s \<ge> 1 \<longrightarrow> kelly_size s cfg bal = 0)
   \<and> (remaining_capacity cfg bal ex \<le> 0 \<longrightarrow> calculate_position_size s cfg bal ex = Inr 0)
   \<and> (0 < remaining_capacity cfg bal ex \<and> price_cents s \<noteq> 0 \<longrightarrow>
         (\<exists>n. calculate_position_size s cfg bal ex = Inr n \<and> 1 \<le> n))
   \<and> (price_cents s \<noteq> 0 \<and> position_size_usd s cfg bal ex = Some 0 \<longrightarrow>
         calculate_position_size s cfg bal ex = Inr 1)"
proof (intro conjI impI)
  assume "edge_percentage s \<le> 0 \<or> edge_percentage s \<ge> 1"
  then show "kelly_size s cfg bal = 0"
    by (simp add: kelly_size_def kelly_position_size_degenerate)
next
  assume "remaining_capacity cfg bal ex \<le> 0"
  then show "calculate_position_size s cfg bal ex = Inr 0"
    by (simp add: calculate_position_size_def position_size_usd_def Let_def)
next
  assume "0 < remaining_capacity cfg bal ex \<and> price_cents s \<noteq> 0"
  then show "\<exists>n. calculate_position_size s cfg bal ex = Inr n \<and> 1 \<le> n"
    by (simp add: calculate_position_size_def position_size_usd_def Let_def)
next
  assume "price_cents s \<noteq> 0 \<and> position_size_usd s cfg bal ex = Some 0"
  then show "calculate_position_size s cfg bal ex = Inr 1"
    by (simp add: calculate_position_size_def py_int_def)
qed

theorem C1_contracts_witness:
  "kelly_size \<lparr> signal_id = ''s'', ticker = ''T'', side = ''yes'', confidence = 0.8,
       edge_percentage = 0, current_price = Some 0.5, reasoning = [] \<rparr> Map.empty 10000 = 0
   \<and> calculate_position_size \<lparr> signal_id = ''s'', ticker = ''T'', side = ''yes'', confidence = 0.8,
       edge_percentage = 0, current_price = Some 0.5, reasoning = [] \<rparr> Map.empty 10000 0 = Inr 1
   \<and> calculate_position_size \<lparr> signal_id = ''s'', ticker = ''T'', side = ''yes'', confidence = 0.8,
       edge_percentage = 0, current_price = Some 0.5, reasoning = [] \<rparr> Map.empty 10000 2000 = Inr 0"
proof -
  let ?s = "\<lparr> signal_id = ''s'', ticker = ''T'', side = ''yes'', confidence = 0.8,
       edge_percentage = 0, current_price = Some (0.5::real), reasoning = [] \<rparr>"
  have e: "edge_percentage ?s \<le> 0 \<or> edge_percentage ?s \<ge> 1" by simp
  have p: "price_cents ?s \<noteq> 0" by (simp add: price_cents_def py_int_def fmul_half_100)
  have z: "position_size_usd ?s Map.empty 10000 0 = Some 0"
    by (simp add: position_size_usd_def kelly_size_def kelly_position_size_def
        remaining_capacity_def cfg_get_def)
  have r: "remaining_capacity Map.empty 10000 2000 \<le> 0"
    by (simp add: remaining_capacity_def cfg_get_def)
  from C1_contracts [of ?s Map.empty 10000 0] e p z
  have a: "kelly_size ?s Map.empty 10000 = 0"
    and b: "calculate_position_size ?s Map.empty 10000 0 = Inr 1" by blast+
  from C1_contracts [of ?s Map.empty 10000 2000] r
  have c: "calculate_position_size ?s Map.empty 10000 2000 = Inr 0" by blast
  from a b c show ?thesis by blast
qed

text \<open>
  Claim C5: while heat capacity remains, the dollar size is the least of the Kelly
  size, \<open>max_position_size_usd\<close> and the remaining heat capacity (the balance times
  \<open>max_portfolio_heat\<close>, less the exposure); a dollar size, once computed, exceeds
  neither limit; and with no heat capacity left no dollar size is computed and the
  sizer returns 0 contracts.
\<close>

theorem C5_dollar_size:
  "(0 < remaining_capacity cfg bal ex \<longrightarrow>
      position_size_usd s cfg bal ex =
        Some (min (kelly_size s cfg bal)
               (min (cfg_get cfg ''max_position_size_usd'' 500) (remaining_capacity cfg bal ex))))
   \<and> (\<forall>d. position_size_usd s cfg bal ex = Some d \<longrightarrow>
          d \<le> cfg_get cfg ''max_position_size_usd'' 500 \<and> d \<le> remaining_capacity cfg bal ex)
   \<and> (remaining_capacity cfg bal ex \<le> 0 \<longrightarrow>
          position_size_usd s cfg bal ex = None \<and> calculate_position_size s cfg bal ex = Inr 0)
   \<and> remaining_capacity cfg bal ex = bal * cfg_get cfg ''max_portfolio_heat'' 0.20 - ex"
  by (auto simp: calculate_position_size_def position_size_usd_def remaining_capacity_def
      Let_def min_def)

theorem C5_dollar_size_witness:
  "position_size_usd \<lparr> signal_id = ''s'', ticker = ''T'', side = ''yes'', confidence = 0.9,
       edge_percentage = 0.5, current_price = Some 0.5, reasoning = [] \<rparr> Map.empty 10000 1900
     = Some 100
   \<and> (100::real) \<le> 500
   \<and> calculate_position_size \<lparr> signal_id = ''s'', ticker = ''T'', side = ''yes'', confidence = 0.9,
       edge_percentage = 0.5, current_price = Some 0.5, reasoning = [] \<rparr> Map.empty 10000 2000
     = Inr 0"
proof -
  let ?s = "\<lparr> signal_id = ''s'', ticker = ''T'', side = ''yes'', confidence = 0.9,
       edge_percentage = 0.5, current_price = Some (0.5::real), reasoning = [] \<rparr>"
  have r1: "remaining_capacity Map.empty 10000 1900 = 100"
    by (simp add: remaining_capacity_def cfg_get_def)
  have k: "kelly_size ?s Map.empty 10000 = 2000"
    by (simp add: kelly_size_def kelly_position_size_def cfg_get_def)
  have m: "cfg_get Map.empty ''max_position_size_usd'' 500 = 500"
    by (simp add: cfg_get_def)
  have r2: "remaining_capacity Map.empty 10000 2000 \<le> 0"
    by (simp add: remaining_capacity_def cfg_get_def)
  from C5_dollar_size [of Map.empty 10000 1900 ?s] r1 k m
  have a: "position_size_usd ?s Map.empty 10000 1900 = Some 100" by simp
  with C5_dollar_size [of Map.empty 10000 1900 ?s] m
  have b: "(100::real) \<le> 500" by simp
  from C5_dollar_size [of Map.empty 10000 2000 ?s] r2
  have c: "calculate_position_size ?s Map.empty 10000 2000 = Inr 0" by blast
  from a b c show ?thesis by blast
qed

section \<open>The circuit breaker as a state machine\<close>

lemma record_trade_max [simp]:
  "max_consecutive_losses (record_trade t cb p) = max_consecutive_losses cb"
  by (simp add: record_trade_def trip_def reset_def Let_def)

lemma record_trades_max [simp]:
  "max_consecutive_losses (record_trades cb rs) = max_consecutive_losses cb"
  by (induction cb rs rule: record_trades.induct) simp_all

lemma record_trade_loss_count:
  "p < 0 \<Longrightarrow> consecutive_losses (record_trade t cb p) = consecutive_losses cb + 1"
  by (simp add: record_trade_def trip_def Let_def)

lemma record_trade_loss_tripped:
  "p < 0 \<Longrightarrow> is_tripped (record_trade t cb p) =
     (is_tripped cb \<or> real_of_int (consecutive_losses cb + 1) \<ge> max_consecutive_losses cb)"
  by (auto simp: record_trade_def trip_def Let_def)

lemma record_trade_nonneg:
  "0 \<le> consecutive_losses cb \<Longrightarrow> 0 \<le> consecutive_losses (record_trade t cb p)"
  by (simp add: record_trade_def trip_def reset_def Let_def)

lemma record_trades_nonneg:
  "0 \<le> consecutive_losses cb \<Longrightarrow> 0 \<le> consecutive_losses (record_trades cb rs)"
  by (induction cb rs rule: record_trades.induct) (simp_all add: record_trade_nonneg)

lemma record_trades_append:
  "record_trades cb (xs @ ys) = record_trades (record_trades cb xs) ys"
  by (induction cb xs rule: record_trades.induct) simp_all

lemma record_trades_losses_count:
  "\<forall>r \<in> set rs. snd r < 0 \<Longrightarrow>
     consecutive_losses (record_trades cb rs) = consecutive_losses cb + int (length rs)"
proof (induction cb rs rule: record_trades.induct)
  case (1 cb)
  then show ?case by simp
next
  case (2 cb t p rest)
  then show ?case by (simp add: record_trade_loss_count)
qed

lemma record_trades_losses_tripped:
  assumes "\<forall>r \<in> set rs. snd r < 0" and "rs \<noteq> []"
    and "real_of_int (consecutive_losses cb + int (length rs)) \<ge> max_consecutive_losses cb"
  shows "is_tripped (record_trades cb rs)"
proof -
  from assms(2) obtain ys y where rs: "rs = ys @ [y]"
    by (metis rev_exhaust)
  obtain t p where y: "y = (t, p)" by (cases y)
  from assms(1) rs y have p: "p < 0" and ys: "\<forall>r \<in> set ys. snd r < 0" by auto
  have c: "consecutive_losses (record_trades cb ys) = consecutive_losses cb + int (length ys)"
    using ys by (rule record_trades_losses_count)
  have "is_tripped (record_trade t (record_trades cb ys) p)"
    using p c assms(3) rs by (simp add: record_trade_loss_tripped)
  then show ?thesis by (simp add: rs y record_trades_append)
qed

lemma record_trades_losses_not_tripped:
  assumes "\<forall>r \<in> set rs. snd r < 0" and "\<not> is_tripped cb"
    and "real_of_int (consecutive_losses cb + int (length rs)) < max_consecutive_losses cb"
  shows "\<not> is_tripped (record_trades cb rs)"
  using assms
proof (induction cb rs rule: record_trades.induct)
  case (1 cb)
  then show ?case by simp
next
  case (2 cb t p rest)
  from "2.prems" have p: "p < 0" by simp
  have "\<not> is_tripped (record_trade t cb p)"
    using p "2.prems" by (simp add: record_trade_loss_tripped)
  moreover have "real_of_int (consecutive_losses (record_trade t cb p) + int (length rest))
      < max_consecutive_losses (record_trade t cb p)"
    using p "2.prems" by (simp add: record_trade_loss_count)
  ultimately show ?case using "2.IH" "2.prems" by simp
qed

lemma record_trade_win:
  "0 < p \<Longrightarrow> \<not> is_tripped (record_trade t cb p) \<and> consecutive_losses (record_trade t cb p) = 0"
  by (simp add: record_trade_def reset_def Let_def)

text \<open>
  Claim C2: let the configured limit be \<open>n \<ge> 1\<close>. From the initial (closed) breaker,
  after any earlier records, \<open>n\<close> consecutive records with negative P&L leave the breaker
  tripped and \<open>can_trade\<close> answers false with the circuit-breaker reason; fewer than \<open>n\<close>
  losses from the initial state do not trip it; and one record with positive P&L then
  closes the breaker again, with the loss counter at 0 and \<open>can_trade\<close> true.
\<close>

theorem C2_circuit_breaker:
  assumes limit: "cfg_get cfg ''circuit_breaker_consecutive_losses'' 3 = real n"
    and pos: "1 \<le> n"
    and len: "length losses = n"
    and neg: "\<forall>r \<in> set losses. snd r < 0"
    and win: "0 < p"
  shows "is_tripped (record_trades (record_trades (circuit_breaker_init cfg) earlier) losses)
    \<and> can_trade (record_trades (record_trades (circuit_breaker_init cfg) earlier) losses)
        = (False, Some ''Circuit breaker tripped - trading paused'')
    \<and> (\<forall>k < n. \<not> is_tripped (record_trades (circuit_breaker_init cfg) (take k losses)))
    \<and> \<not> is_tripped (record_trade t
          (record_trades (record_trades (circuit_breaker_init cfg) earlier) losses) p)
    \<and> consecutive_losses (record_trade t
          (record_trades (record_trades (circuit_breaker_init cfg) earlier) losses) p) = 0
    \<and> can_trade (record_trade t
          (record_trades (record_trades (circuit_breaker_init cfg) earlier) losses) p)
        = (True, None)"
proof -
  let ?init = "circuit_breaker_init cfg"
  let ?mid = "record_trades ?init earlier"
  let ?s = "record_trades ?mid losses"
  have m: "max_consecutive_losses ?mid = real n"
    using limit by (simp add: circuit_breaker_init_def)
  have c0: "0 \<le> consecutive_losses ?mid"
    by (rule record_trades_nonneg) (simp add: circuit_breaker_init_def)
  have ne: "losses \<noteq> []" using pos len by auto
  have "real_of_int (consecutive_losses ?mid + int (length losses)) \<ge> max_consecutive_losses ?mid"
    using m c0 len by simp
  with neg ne have tripped: "is_tripped ?s"
    by (rule record_trades_losses_tripped)
  have before: "\<not> is_tripped (record_trades ?init (take k losses))" if "k < n" for k
  proof (rule record_trades_losses_not_tripped)
    show "\<forall>r \<in> set (take k losses). snd r < 0"
      using neg by (meson in_set_takeD)
    show "\<not> is_tripped ?init" by (simp add: circuit_breaker_init_def)
    show "real_of_int (consecutive_losses ?init + int (length (take k losses)))
        < max_consecutive_losses ?init"
      using that len limit by (simp add: circuit_breaker_init_def)
  qed
  from record_trade_win [OF win, of t ?s]
  have after: "\<not> is_tripped (record_trade t ?s p)"
    "consecutive_losses (record_trade t ?s p) = 0" by simp_all
  show ?thesis
    using tripped before after by (simp add: can_trade_def)
qed

theorem C2_circuit_breaker_witness:
  "is_tripped (record_trades (record_trades (circuit_breaker_init Map.empty) [(0, 5), (1, -2)])
      [(2, -1), (3, -4), (4, -1)])
   \<and> can_trade (record_trade 5 (record_trades
        (record_trades (circuit_breaker_init Map.empty) [(0, 5), (1, -2)])
        [(2, -1), (3, -4), (4, -1)]) 7) = (True, None)"
proof -
  have l: "cfg_get Map.empty ''circuit_breaker_consecutive_losses'' 3 = real 3"
    by (simp add: cfg_get_def)
  have n: "\<forall>r \<in> set [(2::real, -1::real), (3, -4), (4, -1)]. snd r < 0" by simp
  from C2_circuit_breaker [OF l _ _ n, of 7 "[(0, 5), (1, -2)]" 5]
  show ?thesis by simp
qed

text \<open>
  Claim C4 on the code: a record with P&L exactly 0 takes the \<open>else\<close> branch of
  \<open>record_trade\<close>, the one commented "Reset on win", and sets a loss counter of 2 back
  to 0.
\<close>

theorem C4_break_even_resets:
  "consecutive_losses (record_trade t
      \<lparr> max_consecutive_losses = 3, consecutive_losses = 2, is_tripped = False,
        trip_time = None \<rparr> 0) = 0"
  by (simp add: record_trade_def)

section \<open>Signal validation\<close>

text \<open>
  Claim C6 on the code: the confidence threshold is read from the key
  \<open>min_edge_threshold\<close> (line 163), the key of the edge threshold. With
  \<open>min_confidence\<close> configured as 0.7 and the edge threshold as 0.05, a signal of
  confidence 0.5 passes the confidence check and is accepted.
\<close>

theorem C6_confidence_threshold:
  "validate_signal (\<lambda>x. x)
     \<lparr> signal_id = ''s'', ticker = ''T'', side = ''yes'', confidence = 0.5,
       edge_percentage = 0.1, current_price = Some 0.5, reasoning = [] \<rparr>
     [''min_confidence'' \<mapsto> 0.7, ''min_edge_threshold'' \<mapsto> 0.05] {} = (True, None)"
  by (simp add: validate_signal_def cfg_get_def price_out_of_range_def)

section \<open>The paper simulator's fills\<close>

lemma fill_quantity_95:
  assumes "simulated_fill_rate pt = 0.95" and "0 \<le> q"
  shows "fill_quantity pt q = (19 * q) div 20"
proof -
  have "real_of_int q * 0.95 = real_of_int (19 * q) / real_of_int 20" by simp
  then have fl: "\<lfloor>real_of_int q * 0.95\<rfloor> = (19 * q) div 20"
    by (simp only: floor_divide_of_int_eq)
  have "0 \<le> real_of_int q * 0.95" using assms(2) by simp
  then have "py_int (real_of_int q * 0.95) = (19 * q) div 20"
    unfolding py_int_def using fl by (simp only: if_True)
  then show ?thesis by (simp only: fill_quantity_def assms(1))
qed

text \<open>
  Claim C9, as stated, fails at the requested quantity 1: \<open>int(1 * 0.95)\<close> is 0, so
  nothing is filled, the order is cancelled and there is no fill price.
\<close>

theorem C9_counterexample:
  "paper_place_order ''PAPER_1'' 0 paper_trader_init ''T'' ''yes'' 1 50 =
     Inr (\<lparr> po_order_id = ''PAPER_1'', po_ticker = ''T'', po_side = ''yes'', po_quantity = 1,
            po_price = 50, po_status = ''canceled'', po_created_time = 0,
            po_filled_count = 0 \<rparr>,
          paper_trader_init
            \<lparr> paper_trades :=
                [\<lparr> pt_timestamp = 0,
                   pt_order = \<lparr> po_order_id = ''PAPER_1'', po_ticker = ''T'', po_side = ''yes'',
                                po_quantity = 1, po_price = 50, po_status = ''canceled'',
                                po_created_time = 0, po_filled_count = 0 \<rparr>,
                   pt_fill_price = None, pt_fill_quantity = 0 \<rparr>] \<rparr>)"
  by (simp add: paper_place_order_def paper_trader_init_def fill_quantity_def py_int_def
      Let_def)

text \<open>
  Claim C9, amended: for a requested quantity \<open>q \<ge> 1\<close> and a limit price in
  \<open>[1, 99]\<close> cents the fill depends on \<open>q\<close> and the limit price alone. The filled
  quantity is 95% of \<open>q\<close> truncated to whole contracts, \<open>19 q div 20\<close>. For
  \<open>q \<ge> 2\<close> the order is partially filled at the limit price plus 1 cent when the
  limit price is below 90 cents and at the limit price otherwise; for \<open>q = 1\<close> nothing
  is filled, the order is cancelled and no fill price is recorded. The position ledger
  is assumed to hold no negative quantity.
\<close>

theorem C9_paper_fill:
  assumes rate: "simulated_fill_rate pt = 0.95"
    and q: "1 \<le> q"
    and lim: "1 \<le> limit_price \<and> limit_price \<le> 99"
    and inv: "\<forall>(k, pos) \<in> set (paper_positions pt). 0 \<le> pp_quantity pos"
  shows "\<exists>po pt1. paper_place_order oid tm pt tick sd q limit_price = Inr (po, pt1)
     \<and> po_filled_count po = (19 * q) div 20
     \<and> po_status po = (if q = 1 then ''canceled'' else ''partial'')
     \<and> paper_trades pt1 = paper_trades pt @
          [\<lparr> pt_timestamp = tm, pt_order = po,
             pt_fill_price = (if q = 1 then None
                              else Some (if limit_price < 90 then limit_price + 1
                                         else limit_price)),
             pt_fill_quantity = (19 * q) div 20 \<rparr>]"
proof -
  have fq: "fill_quantity pt q = (19 * q) div 20"
    using rate q by (simp add: fill_quantity_95)
  show ?thesis
  proof (cases "q = 1")
    case True
    then have "fill_quantity pt q = 0" using fq by simp
    then show ?thesis using True
      by (simp add: paper_place_order_def Let_def)
  next
    case False
    with q have q2: "2 \<le> q" by simp
    then have pos: "0 < (19 * q) div 20" by linarith
    have ne: "(19 * q) div 20 \<noteq> q" using q2 by linarith
    have old: "0 \<le> pp_quantity (case map_of (paper_positions pt) (tick @ ''_'' @ sd) of
                        None \<Rightarrow> \<lparr> pp_ticker = tick, pp_side = sd, pp_quantity = 0,
                                  pp_avg_price = 0, pp_total_cost = 0 \<rparr>
                      | Some p \<Rightarrow> p)"
      using inv by (auto split: option.splits dest!: map_of_SomeD)
    show ?thesis using False fq pos ne old
      by (simp add: paper_place_order_def Let_def fill_price_def)
  qed
qed

theorem C9_paper_fill_witness:
  "\<exists>po pt1. paper_place_order ''PAPER_2'' 7 paper_trader_init ''T'' ''yes'' 20 50 = Inr (po, pt1)
     \<and> po_filled_count po = 19
     \<and> po_status po = ''partial''
     \<and> paper_trades pt1 =
          [\<lparr> pt_timestamp = 7, pt_order = po, pt_fill_price = Some 51,
             pt_fill_quantity = 19 \<rparr>]"
proof -
  have r: "simulated_fill_rate paper_trader_init = 0.95" by (simp add: paper_trader_init_def)
  have i: "\<forall>(k, pos) \<in> set (paper_positions paper_trader_init). 0 \<le> pp_quantity pos"
    by (simp add: paper_trader_init_def)
  have q: "(1::int) \<le> 20" and l: "(1::int) \<le> 50 \<and> (50::int) \<le> 99" by simp_all
  from C9_paper_fill [OF r q l i, of "''PAPER_2''" 7 "''T''" "''yes''"]
  show ?thesis by (simp add: paper_trader_init_def)
qed

section \<open>The profit-target exit\<close>

text \<open>
  What the code does: with the market open and a current price present, a yes trade is
  closed for profit when the price, as a double, is at least the double the code
  computes for the target, and a no trade when it is at most that double.
\<close>

lemma exit_decision_profit_target:
  assumes "m_status m \<notin> {''closed'', ''settled''}"
    and "py_or (m_last_price m) (m_yes_bid m) = Some cp" and "cp \<noteq> 0"
    and "(t_side tr = ''yes'' \<and> fge cp (profit_target pm tr))
       \<or> (t_side tr = ''no'' \<and> fle cp (profit_target pm tr))"
  shows "exit_decision pm tm tr (Some m) = Exit (Some cp) ''profit_target''"
  using assms by (auto simp: exit_decision_def Let_def)

text \<open>
  Once \<open>_close_position\<close> is called with a price that is a valid order price in cents,
  a positive quantity, a broker that returns an order and a commit that succeeds, the
  trade is stored closed with the reason given, through one order on the opposite side.
\<close>

lemma close_position_closes:
  assumes "1 \<le> py_int (fmul cp 100)" and "py_int (fmul cp 100) \<le> 99"
    and "0 < t_quantity tr"
  shows "\<exists>tr1 alerts.
     close_position pm tm (Order_returned oid) False tr (Some cp) reason =
       (tr1, [\<lparr> or_ticker = t_ticker tr,
                 or_side = (if t_side tr = ''yes'' then ''no'' else ''yes''),
                 or_quantity = t_quantity tr,
                 or_limit_price = py_int (fmul cp 100) \<rparr>], alerts)
     \<and> t_status tr1 = ''closed'' \<and> t_close_reason tr1 = Some reason
     \<and> t_exit_price tr1 = Some cp"
  using assms by (auto simp: close_position_def kalshi_place_order_def Let_def)

text \<open>
  Claim C8 on the code, at the claim's own scenario: a yes trade entered at 0.40 under
  the multiplier 2.0, and a current price of 0.44. The double product
  \<open>0.40 * (1 + 2.0 * 0.05)\<close> is \<open>0.44000000000000006\<close>, above the double 0.44, so the
  comparison of line 125 is false; no other exit applies, \<open>_close_position\<close> is not
  called and the trade stays open.
\<close>

theorem C8_profit_target_missed:
  "exit_decision (position_manager_init Map.empty True) 0
      \<lparr> t_signal_id = None, t_order_id = ''o1'', t_ticker = ''T'', t_side = ''yes'',
        t_quantity = 10, t_entry_price = 0.40, t_fill_price = None, t_status = ''open'',
        t_exit_price = None, t_pnl = None, t_fees = None, t_close_reason = None,
        t_closed_at = None \<rparr>
      (Some \<lparr> m_status = ''open'', m_last_price = Some 0.44, m_yes_bid = Some 0.43,
              m_close_time = No_close_time \<rparr>)
     = No_exit
   \<and> fst (check_position (position_manager_init Map.empty True) 0 (Order_returned ''o2'') False
      \<lparr> t_signal_id = None, t_order_id = ''o1'', t_ticker = ''T'', t_side = ''yes'',
        t_quantity = 10, t_entry_price = 0.40, t_fill_price = None, t_status = ''open'',
        t_exit_price = None, t_pnl = None, t_fees = None, t_close_reason = None,
        t_closed_at = None \<rparr>
      (Some \<lparr> m_status = ''open'', m_last_price = Some 0.44, m_yes_bid = Some 0.43,
              m_close_time = No_close_time \<rparr>))
     = \<lparr> t_signal_id = None, t_order_id = ''o1'', t_ticker = ''T'', t_side = ''yes'',
        t_quantity = 10, t_entry_price = 0.40, t_fill_price = None, t_status = ''open'',
        t_exit_price = None, t_pnl = None, t_fees = None, t_close_reason = None,
        t_closed_at = None \<rparr>"
  by code_simp

section \<open>The executor: orders, alerts and duplicates\<close>

lemmas example_defs = example_signal_def example_env_def executor_init_def
  execute_signal_def size_and_place_def place_and_record_def check_rate_limits_def
  can_trade_def circuit_breaker_init_def validate_signal_def validate_order_def
  price_out_of_range_def cfg_get_def calculate_position_size_def position_size_usd_def
  kelly_size_def kelly_position_size_def remaining_capacity_def price_cents_def py_int_def
  current_balance_def current_exposure_def calculate_current_exposure_def
  kalshi_place_order_def send_alert_def record_trade_row_def paper_trader_init_def Let_def

lemma check_rate_limits_frame:
  "check_rate_limits e ex = (b, ex1) \<Longrightarrow>
     ex1 = ex\<lparr> recent_trades := filter (\<lambda>t. t > clock e - 3600) (recent_trades ex) \<rparr>"
  by (auto simp: check_rate_limits_def Let_def split: if_splits)

lemma place_and_record_orders:
  "placed_orders (snd (place_and_record e ex s q lp)) = placed_orders ex
   \<or> placed_orders (snd (place_and_record e ex s q lp)) =
       placed_orders ex @ [\<lparr> or_ticker = ticker s, or_side = side s, or_quantity = q,
                             or_limit_price = lp \<rparr>]"
  by (auto simp: place_and_record_def Let_def split: sum.splits option.splits prod.splits)

lemma size_and_place_orders:
  "placed_orders (snd (size_and_place e ex s)) = placed_orders ex
   \<or> (\<exists>q. placed_orders (snd (size_and_place e ex s)) =
       placed_orders ex @ [\<lparr> or_ticker = ticker s, or_side = side s, or_quantity = q,
                             or_limit_price = price_cents s \<rparr>])"
proof (cases "calculate_position_size s (ex_config ex) (current_balance e ex) (current_exposure e ex)")
  case (Inl err)
  then show ?thesis by (simp add: size_and_place_def)
next
  case (Inr q)
  show ?thesis
  proof (cases "q = 0 \<or> \<not> fst (validate_order (ticker s) (side s) q (price_cents s))")
    case True
    then show ?thesis using Inr
      by (auto simp: size_and_place_def Let_def split: prod.splits bool.splits)
  next
    case False
    then have "size_and_place e ex s = place_and_record e ex s q (price_cents s)"
      using Inr by (auto simp: size_and_place_def Let_def split: prod.splits bool.splits)
    then show ?thesis using place_and_record_orders [of e ex s q "price_cents s"] by auto
  qed
qed

lemma execute_signal_orders:
  "placed_orders (snd (execute_signal e ex s)) = placed_orders ex
   \<or> (\<exists>q. placed_orders (snd (execute_signal e ex s)) =
       placed_orders ex @ [\<lparr> or_ticker = ticker s, or_side = side s, or_quantity = q,
                             or_limit_price = price_cents s \<rparr>])"
proof -
  obtain b ex1 where c: "check_rate_limits e ex = (b, ex1)" by (cases "check_rate_limits e ex")
  then have po: "placed_orders ex1 = placed_orders ex"
    by (auto dest!: check_rate_limits_frame)
  have "placed_orders (snd (execute_signal e ex s)) = placed_orders ex
     \<or> execute_signal e ex s = size_and_place e ex1 s"
    using c po by (auto simp: execute_signal_def split: prod.splits bool.splits)
  then show ?thesis
    using size_and_place_orders [of e ex1 s] po by auto
qed

lemma place_and_record_executed:
  assumes "place_and_record e ex s q lp = (Executed tr, ex1)"
  shows "md5 e (signal_id s) \<in> seen_signals ex1
    \<and> trading_enabled ex1 = trading_enabled ex
    \<and> ex_circuit_breaker ex1 = ex_circuit_breaker ex"
  using assms
  by (auto simp: place_and_record_def Let_def
      split: sum.splits option.splits prod.splits if_splits)

lemma size_and_place_executed:
  assumes "size_and_place e ex s = (Executed tr, ex1)"
  shows "md5 e (signal_id s) \<in> seen_signals ex1
    \<and> trading_enabled ex1 = trading_enabled ex
    \<and> ex_circuit_breaker ex1 = ex_circuit_breaker ex"
proof -
  from assms obtain q lp where "place_and_record e ex s q lp = (Executed tr, ex1)"
    by (auto simp: size_and_place_def Let_def split: sum.splits prod.splits bool.splits if_splits)
  then show ?thesis by (rule place_and_record_executed)
qed

lemma execute_signal_executed:
  assumes "execute_signal e ex s = (Executed tr, ex1)"
  shows "md5 e (signal_id s) \<in> seen_signals ex1 \<and> trading_enabled ex1
    \<and> \<not> is_tripped (ex_circuit_breaker ex1)"
proof -
  obtain b ex0 where c: "check_rate_limits e ex = (b, ex0)" by (cases "check_rate_limits e ex")
  from check_rate_limits_frame [OF c]
  have f: "trading_enabled ex0 = trading_enabled ex"
    "ex_circuit_breaker ex0 = ex_circuit_breaker ex" by simp_all
  from assms c have sp: "size_and_place e ex0 s = (Executed tr, ex1)"
    and en: "trading_enabled ex" and cb: "\<not> is_tripped (ex_circuit_breaker ex)"
    by (auto simp: execute_signal_def can_trade_def split: prod.splits bool.splits if_splits)
  from size_and_place_executed [OF sp] f en cb show ?thesis by simp
qed

lemma execute_signal_seen:
  assumes "md5 e (signal_id s) \<in> seen_signals ex"
  shows "placed_orders (snd (execute_signal e ex s)) = placed_orders ex
    \<and> returned (fst (execute_signal e ex s)) = None
    \<and> (trading_enabled ex \<and> \<not> is_tripped (ex_circuit_breaker ex) \<longrightarrow>
          execute_signal e ex s = (Signal_rejected (Some Duplicate_signal), ex))"
  using assms
  by (auto simp: execute_signal_def can_trade_def validate_signal_def)

text \<open>
  Claim C3, as stated, fails: with a daily P&L of -1001 against the default limit of
  1000, two calls of \<open>execute_signal\<close> during the same breach send two daily-loss
  alerts; nothing in the executor remembers that the breach has been reported.
\<close>

theorem C3_counterexample:
  "sent_alerts (snd (execute_signal example_env
      (snd (execute_signal example_env
         ((executor_init Map.empty True False True)\<lparr> daily_pnl := -1001 \<rparr>) example_signal))
      example_signal))
   = [Alert_daily_loss (-1001), Alert_daily_loss (-1001)]"
  by (simp add: example_defs)

text \<open>
  Claim C3, amended: whenever the daily P&L is below minus \<open>max_daily_loss\<close>,
  \<open>execute_signal\<close> returns no trade, places no order and leaves the daily P&L as it
  is. Every call that passes the kill switch, the circuit breaker, the signal validation
  and the rate limits ends at the daily-loss check and sends one daily-loss alert (when
  there is an alert callback), so repeated calls during a breach send repeated alerts; a
  call that is rejected earlier sends no daily-loss alert.
\<close>

theorem C3_daily_loss:
  assumes breach: "daily_pnl ex < - rl_max_daily_loss (ex_risk_limits ex)"
  shows "returned (fst (execute_signal e ex s)) = None
    \<and> placed_orders (snd (execute_signal e ex s)) = placed_orders ex
    \<and> daily_pnl (snd (execute_signal e ex s)) = daily_pnl ex
    \<and> (trading_enabled ex \<and> \<not> is_tripped (ex_circuit_breaker ex)
        \<and> fst (validate_signal (md5 e) s (ex_config ex) (seen_signals ex))
        \<and> fst (check_rate_limits e ex) \<longrightarrow>
          fst (execute_signal e ex s) = Daily_loss_limit
          \<and> sent_alerts (snd (execute_signal e ex s)) =
              sent_alerts ex @ send_alert (has_alert_callback ex) (Alert_daily_loss (daily_pnl ex)))
    \<and> (fst (execute_signal e ex s) \<noteq> Daily_loss_limit \<longrightarrow>
          (\<forall>x. Alert_daily_loss x \<notin> set (drop (length (sent_alerts ex))
                   (sent_alerts (snd (execute_signal e ex s))))))"
proof -
  obtain b ex1 where c: "check_rate_limits e ex = (b, ex1)" by (cases "check_rate_limits e ex")
  from check_rate_limits_frame [OF c]
  have f: "daily_pnl ex1 = daily_pnl ex" "ex_risk_limits ex1 = ex_risk_limits ex"
    "placed_orders ex1 = placed_orders ex" "sent_alerts ex1 = sent_alerts ex"
    "has_alert_callback ex1 = has_alert_callback ex" by simp_all
  show ?thesis
    using c f breach
    by (auto simp: execute_signal_def can_trade_def send_alert_def
        split: prod.splits bool.splits if_splits)
qed

theorem C3_daily_loss_witness:
  "returned (fst (execute_signal example_env
      ((executor_init Map.empty True False True)\<lparr> daily_pnl := -1001 \<rparr>) example_signal)) = None
   \<and> sent_alerts (snd (execute_signal example_env
      ((executor_init Map.empty True False True)\<lparr> daily_pnl := -1001 \<rparr>) example_signal))
     = [Alert_daily_loss (-1001)]"
proof -
  let ?ex = "(executor_init Map.empty True False True)\<lparr> daily_pnl := -1001 \<rparr>"
  have b: "daily_pnl ?ex < - rl_max_daily_loss (ex_risk_limits ?ex)"
    by (simp add: executor_init_def cfg_get_def)
  have p: "trading_enabled ?ex \<and> \<not> is_tripped (ex_circuit_breaker ?ex)
        \<and> fst (validate_signal (md5 example_env) example_signal (ex_config ?ex) (seen_signals ?ex))
        \<and> fst (check_rate_limits example_env ?ex)"
    by (simp add: example_defs)
  have a: "sent_alerts ?ex = []" "has_alert_callback ?ex" "daily_pnl ?ex = -1001"
    by (simp_all add: executor_init_def)
  from C3_daily_loss [OF b, of example_env example_signal] p a
  show ?thesis by (simp add: send_alert_def)
qed

text \<open>
  Claim C7, as stated, fails when the commit that stores the trade raises after the
  broker has accepted the order: the first submission has placed an order, the
  \<open>except\<close> branch returns before the signal is marked as seen, and the second
  submission of the same signal places a second order.
\<close>

theorem C7_counterexample:
  "placed_orders (snd (execute_signal (example_env\<lparr> commit_fails := True \<rparr>)
      (executor_init Map.empty True False True) example_signal))
     = [\<lparr> or_ticker = ''T'', or_side = ''yes'', or_quantity = 1, or_limit_price = 50 \<rparr>]
   \<and> placed_orders (snd (execute_signal example_env
        (snd (execute_signal (example_env\<lparr> commit_fails := True \<rparr>)
           (executor_init Map.empty True False True) example_signal))
        example_signal))
     = [\<lparr> or_ticker = ''T'', or_side = ''yes'', or_quantity = 1, or_limit_price = 50 \<rparr>,
        \<lparr> or_ticker = ''T'', or_side = ''yes'', or_quantity = 1, or_limit_price = 50 \<rparr>]"
  by (simp add: example_defs)

text \<open>
  Claim C7, amended: if the first submission returns a trade (the order was placed and
  the trade stored), a second submission with the same signal id, made next, is rejected
  as a duplicate with the executor's state unchanged, so before any order placement; and
  in any later state that still holds the executed signals, a submission with that id
  places no order and returns no trade.
\<close>

theorem C7_idempotence:
  assumes first: "execute_signal e1 ex s1 = (Executed tr, ex1)"
    and same_id: "signal_id s2 = signal_id s1"
    and same_hash: "md5 e2 = md5 e1"
  shows "execute_signal e2 ex1 s2 = (Signal_rejected (Some Duplicate_signal), ex1)
    \<and> (\<forall>ex2. seen_signals ex1 \<subseteq> seen_signals ex2 \<longrightarrow>
          placed_orders (snd (execute_signal e2 ex2 s2)) = placed_orders ex2
          \<and> returned (fst (execute_signal e2 ex2 s2)) = None)"
proof -
  from execute_signal_executed [OF first]
  have h: "md5 e2 (signal_id s2) \<in> seen_signals ex1"
    and en: "trading_enabled ex1" and cb: "\<not> is_tripped (ex_circuit_breaker ex1)"
    using same_id same_hash by simp_all
  from execute_signal_seen [OF h] en cb
  have a: "execute_signal e2 ex1 s2 = (Signal_rejected (Some Duplicate_signal), ex1)" by simp
  have b: "placed_orders (snd (execute_signal e2 ex2 s2)) = placed_orders ex2
          \<and> returned (fst (execute_signal e2 ex2 s2)) = None"
    if "seen_signals ex1 \<subseteq> seen_signals ex2" for ex2
  proof -
    from h that have "md5 e2 (signal_id s2) \<in> seen_signals ex2" by blast
    from execute_signal_seen [OF this] show ?thesis by simp
  qed
  from a b show ?thesis by blast
qed

theorem C7_idempotence_witness:
  "fst (execute_signal example_env (executor_init Map.empty True False True) example_signal)
     = Executed \<lparr> t_signal_id = None, t_order_id = ''o1'', t_ticker = ''T'', t_side = ''yes'',
         t_quantity = 1, t_entry_price = 0.5, t_fill_price = None, t_status = ''open'',
         t_exit_price = None, t_pnl = None, t_fees = None, t_close_reason = None,
         t_closed_at = None \<rparr>
   \<and> fst (execute_signal example_env
        (snd (execute_signal example_env (executor_init Map.empty True False True)
           example_signal))
        (example_signal\<lparr> confidence := 0.9 \<rparr>))
     = Signal_rejected (Some Duplicate_signal)"
proof -
  let ?ex = "executor_init Map.empty True False True"
  let ?tr = "\<lparr> t_signal_id = None, t_order_id = ''o1'', t_ticker = ''T'', t_side = ''yes'',
         t_quantity = 1, t_entry_price = 0.5, t_fill_price = None, t_status = ''open'',
         t_exit_price = None, t_pnl = None, t_fees = None, t_close_reason = None,
         t_closed_at = None \<rparr>"
  have o: "fst (execute_signal example_env ?ex example_signal) = Executed ?tr"
    by (simp add: example_defs)
  then have first: "execute_signal example_env ?ex example_signal =
      (Executed ?tr, snd (execute_signal example_env ?ex example_signal))"
    by (metis prod.collapse)
  have i: "signal_id (example_signal\<lparr> confidence := 0.9 \<rparr>) = signal_id example_signal"
    by simp
  from C7_idempotence [OF first i refl] o show ?thesis by simp
qed

text \<open>
  Claim C10, as stated, fails for the sizer: the signal of the concrete run has no price
  and a dollar size of 0, for which \<open>floor(size_usd * 100 / 50)\<close> is 0, and the sizer
  returns 1 contract, line 134 raising every count to at least 1.
\<close>

theorem C10_counterexample:
  "current_price example_signal = None
   \<and> position_size_usd example_signal Map.empty 10000 0 = Some 0
   \<and> \<lfloor>(0::real) * 100 / 50\<rfloor> = 0
   \<and> calculate_position_size example_signal Map.empty 10000 0 = Inr 1"
  by (simp add: example_signal_def calculate_position_size_def position_size_usd_def
      kelly_size_def kelly_position_size_def remaining_capacity_def cfg_get_def
      price_cents_def py_int_def)

text \<open>
  Claim C10, amended: for a signal whose current price is \<open>None\<close> or 0, the price in
  cents is taken to be 50 at both places: the sizer returns the contracts for
  \<open>size_usd * 100 / 50\<close>, rounded down and then raised to at least 1 (and 0 contracts
  when no heat capacity remains), and every order \<open>execute_signal\<close> places for the
  signal has the limit price 50.
\<close>

theorem C10_default_price:
  assumes none: "current_price s = None \<or> current_price s = Some 0"
  shows "price_cents s = 50
    \<and> calculate_position_size s cfg bal expo =
        (case position_size_usd s cfg bal expo of
           None \<Rightarrow> Inr 0
         | Some size_usd \<Rightarrow> Inr (max 1 \<lfloor>size_usd * 100 / 50\<rfloor>))
    \<and> (placed_orders (snd (execute_signal e ex s)) = placed_orders ex
        \<or> (\<exists>q. placed_orders (snd (execute_signal e ex s)) =
              placed_orders ex @ [\<lparr> or_ticker = ticker s, or_side = side s, or_quantity = q,
                                    or_limit_price = 50 \<rparr>]))"
proof -
  from none have p: "price_cents s = 50" by (auto simp: price_cents_def)
  have c: "calculate_position_size s cfg bal expo =
        (case position_size_usd s cfg bal expo of
           None \<Rightarrow> Inr 0
         | Some size_usd \<Rightarrow> Inr (max 1 \<lfloor>size_usd * 100 / 50\<rfloor>))"
    using p by (simp add: calculate_position_size_def max_one_py_int split: option.splits)
  from execute_signal_orders [of e ex s] p c show ?thesis by simp
qed

theorem C10_default_price_witness:
  "calculate_position_size (example_signal\<lparr> confidence := 0.99, edge_percentage := 0.5 \<rparr>)
      Map.empty 10000 0 = Inr 1000
   \<and> calculate_position_size example_signal Map.empty 10000 0 = Inr 1
   \<and> (\<exists>q. placed_orders (snd (execute_signal example_env
          (executor_init Map.empty True False True) example_signal))
        = [\<lparr> or_ticker = ''T'', or_side = ''yes'', or_quantity = q, or_limit_price = 50 \<rparr>])"
proof -
  let ?s = "example_signal\<lparr> confidence := 0.99, edge_percentage := 0.5 \<rparr>"
  let ?ex = "executor_init Map.empty True False True"
  have n1: "current_price ?s = None \<or> current_price ?s = Some 0"
    by (simp add: example_signal_def)
  have n2: "current_price example_signal = None \<or> current_price example_signal = Some 0"
    by (simp add: example_signal_def)
  have z: "position_size_usd ?s Map.empty 10000 0 = Some 500"
    by (simp add: example_signal_def position_size_usd_def kelly_size_def
        kelly_position_size_def remaining_capacity_def cfg_get_def)
  from C10_default_price [OF n1, of Map.empty 10000 0] z
  have a: "calculate_position_size ?s Map.empty 10000 0 = Inr 1000" by simp
  have z0: "position_size_usd example_signal Map.empty 10000 0 = Some 0"
    by (simp add: example_signal_def position_size_usd_def kelly_size_def
        kelly_position_size_def remaining_capacity_def cfg_get_def)
  from C10_default_price [OF n2, of Map.empty 10000 0] z0
  have a0: "calculate_position_size example_signal Map.empty 10000 0 = Inr 1" by simp
  have "placed_orders (snd (execute_signal example_env ?ex example_signal)) \<noteq> placed_orders ?ex"
    by (simp add: example_defs)
  with C10_default_price [OF n2, of _ _ _ example_env ?ex]
  obtain q where "placed_orders (snd (execute_signal example_env ?ex example_signal)) =
      placed_orders ?ex @ [\<lparr> or_ticker = ticker example_signal, or_side = side example_signal,
         or_quantity = q, or_limit_price = 50 \<rparr>]" by blast
  then have "placed_orders (snd (execute_signal example_env ?ex example_signal))
      = [\<lparr> or_ticker = ''T'', or_side = ''yes'', or_quantity = q, or_limit_price = 50 \<rparr>]"
    by (simp add: example_signal_def executor_init_def)
  with a a0 show ?thesis by blast
qed

end
